theory Spec2Isabelle
  imports Complex_Main
begin

section \<open>Python values and the operations the script applies to them\<close>

text \<open>
  The script \<^verbatim>\<open>scripts/jira_helper.py\<close> talks to a REST service and prints text.
  A Python \<^verbatim>\<open>str\<close> is modelled as a \<open>string\<close> in which every \<open>char\<close> stands for one
  code point, so \<open>length\<close> is Python's \<^verbatim>\<open>len\<close> and \<open>take\<close> is slicing; the model
  covers the strings over the first 256 code points.

  The values \<^verbatim>\<open>json.loads\<close> produces are \<^verbatim>\<open>None\<close>, \<^verbatim>\<open>bool\<close>, \<^verbatim>\<open>int\<close>, \<^verbatim>\<open>float\<close>
  (here: its finite value), \<^verbatim>\<open>str\<close>, \<^verbatim>\<open>list\<close> and \<^verbatim>\<open>dict\<close> (the items in order).
\<close>

datatype json =
    JNull
  | JBool bool
  | JInt int
  | JFloat rat
  | JStr string
  | JArr "json list"
  | JObj "(string \<times> json) list"

text \<open>
  The exceptions that can occur. \<open>RequestError\<close> stands for whatever \<^verbatim>\<open>urlopen\<close>,
  \<^verbatim>\<open>read\<close> or \<^verbatim>\<open>json.loads\<close> raise, with its message.
\<close>

datatype exn =
    RequestError string
  | AttributeError
  | KeyError
  | TypeError
  | ValueError
  | IndexError
  | FileError string
  | UnicodeEncodeError

text \<open>Truth value of a Python object, as \<^verbatim>\<open>if x\<close> and \<^verbatim>\<open>not x\<close> take it.\<close>

fun truthy :: "json \<Rightarrow> bool" where
  "truthy JNull = False"
| "truthy (JBool b) = b"
| "truthy (JInt i) = (i \<noteq> 0)"
| "truthy (JFloat r) = (r \<noteq> 0)"
| "truthy (JStr s) = (s \<noteq> [])"
| "truthy (JArr xs) = (xs \<noteq> [])"
| "truthy (JObj kvs) = (kvs \<noteq> [])"

text \<open>\<^verbatim>\<open>x.get(k, d)\<close>: only a dict has the method.\<close>

fun py_get :: "json \<Rightarrow> string \<Rightarrow> json \<Rightarrow> exn + json" where
  "py_get (JObj kvs) k d = Inr (case map_of kvs k of None \<Rightarrow> d | Some v \<Rightarrow> v)"
| "py_get _ k d = Inl AttributeError"

text \<open>\<^verbatim>\<open>x[k]\<close> with a string \<open>k\<close>: a missing key raises, and so does every other type.\<close>

fun py_subscript :: "json \<Rightarrow> string \<Rightarrow> exn + json" where
  "py_subscript (JObj kvs) k = (case map_of kvs k of None \<Rightarrow> Inl KeyError | Some v \<Rightarrow> Inr v)"
| "py_subscript _ k = Inl TypeError"

text \<open>\<^verbatim>\<open>for x in v\<close>: a list gives its elements, a dict its keys, a string its characters.\<close>

fun py_iter :: "json \<Rightarrow> exn + json list" where
  "py_iter (JArr xs) = Inr xs"
| "py_iter (JObj kvs) = Inr (map (\<lambda>kv. JStr (fst kv)) kvs)"
| "py_iter (JStr s) = Inr (map (\<lambda>c. JStr [c]) s)"
| "py_iter _ = Inl TypeError"

text \<open>
  \<^verbatim>\<open>str.lower\<close> on one code point below 256: the letters A to Z and the capital letters
  of Latin-1 (\<open>0xC0\<close> to \<open>0xDE\<close> without the multiplication sign \<open>0xD7\<close>) move up by 32.
\<close>

definition lower_char :: "char \<Rightarrow> char" where
  "lower_char c =
     (let n = (of_char c :: nat)
      in if (65 \<le> n \<and> n \<le> 90) \<or> (192 \<le> n \<and> n \<le> 222 \<and> n \<noteq> 215)
         then char_of (n + 32) else c)"

definition lower :: "string \<Rightarrow> string" where
  "lower s = map lower_char s"

fun py_lower :: "json \<Rightarrow> exn + string" where
  "py_lower (JStr s) = Inr (lower s)"
| "py_lower _ = Inl AttributeError"

text \<open>
  The key under which a dict stores an object: lists and dicts are unhashable, and the
  numbers that compare equal (\<^verbatim>\<open>True == 1 == 1.0\<close>) are one key.
\<close>

fun dict_key :: "json \<Rightarrow> exn + json" where
  "dict_key (JArr xs) = Inl TypeError"
| "dict_key (JObj kvs) = Inl TypeError"
| "dict_key (JBool b) = Inr (JInt (if b then 1 else 0))"
| "dict_key (JFloat r) = Inr (if of_int \<lfloor>r\<rfloor> = r then JInt \<lfloor>r\<rfloor> else JFloat r)"
| "dict_key v = Inr v"

text \<open>Statements in sequence: the first exception ends the block.\<close>

definition bind_exn :: "exn + 'a \<Rightarrow> ('a \<Rightarrow> exn + 'b) \<Rightarrow> exn + 'b" where
  "bind_exn m f = (case m of Inl e \<Rightarrow> Inl e | Inr v \<Rightarrow> f v)"

subsection \<open>Decimal text of integers, and \<^verbatim>\<open>int\<close> of a string\<close>

definition digit_char :: "nat \<Rightarrow> char" where
  "digit_char d = char_of (48 + d)"

function str_of_nat :: "nat \<Rightarrow> string" where
  "str_of_nat n = (if n < 10 then [digit_char n] else str_of_nat (n div 10) @ [digit_char (n mod 10)])"
  by pat_completeness auto
termination
  by (relation "measure id") auto

declare str_of_nat.simps [simp del]

text \<open>\<^verbatim>\<open>str(i)\<close> of a Python integer.\<close>

definition str_of_int :: "int \<Rightarrow> string" where
  "str_of_int i = (if i < 0 then CHR ''-'' # str_of_nat (nat (- i)) else str_of_nat (nat i))"

definition is_digit :: "char \<Rightarrow> bool" where
  "is_digit c = (48 \<le> (of_char c :: nat) \<and> (of_char c :: nat) \<le> 57)"

definition digit_val :: "char \<Rightarrow> nat" where
  "digit_val c = of_char c - 48"

text \<open>The code points below 256 that Python counts as whitespace.\<close>

definition is_space :: "char \<Rightarrow> bool" where
  "is_space c =
     (let n = (of_char c :: nat)
      in (9 \<le> n \<and> n \<le> 13) \<or> (28 \<le> n \<and> n \<le> 32) \<or> n = 133 \<or> n = 160)"

definition strip :: "string \<Rightarrow> string" where
  "strip s = rev (dropWhile is_space (rev (dropWhile is_space s)))"

text \<open>
  The digits of a decimal literal, read left to right into an accumulator. A single
  underscore may stand between two digits.
\<close>

fun parse_digits :: "string \<Rightarrow> nat \<Rightarrow> nat option" where
  "parse_digits [] acc = Some acc"
| "parse_digits (c # cs) acc =
     (if is_digit c then parse_digits cs (10 * acc + digit_val c)
      else if c = CHR ''_'' \<and> cs \<noteq> [] \<and> is_digit (hd cs) then parse_digits cs acc
      else None)"

text \<open>
  \<^verbatim>\<open>int(s)\<close> of a string: surrounding whitespace is dropped, one sign may come first,
  then at least one digit; anything else is a \<^verbatim>\<open>ValueError\<close>. (The bound that recent
  Python versions put on the number of digits is not modelled.)
\<close>

definition py_int :: "string \<Rightarrow> exn + int" where
  "py_int s =
     (let t = strip s;
          neg = (t \<noteq> [] \<and> hd t = CHR ''-'');
          body = (if t \<noteq> [] \<and> (hd t = CHR ''-'' \<or> hd t = CHR ''+'') then tl t else t)
      in if body = [] \<or> \<not> is_digit (hd body) then Inl ValueError
         else (case parse_digits body 0 of
                 None \<Rightarrow> Inl ValueError
               | Some n \<Rightarrow> Inr (if neg then - int n else int n)))"

text \<open>\<^verbatim>\<open>s.split(c)\<close> with a one-character separator: the pieces between the separators.\<close>

fun py_split :: "char \<Rightarrow> string \<Rightarrow> string list" where
  "py_split c [] = [[]]"
| "py_split c (x # xs) =
     (if x = c then [] # py_split c xs
      else (case py_split c xs of p # ps \<Rightarrow> (x # p) # ps | [] \<Rightarrow> [[x]]))"

text \<open>\<^verbatim>\<open>xs[i]\<close> with a non-negative index.\<close>

definition py_index :: "'a list \<Rightarrow> nat \<Rightarrow> exn + 'a" where
  "py_index xs i = (if i < length xs then Inr (xs ! i) else Inl IndexError)"

section \<open>The service and the printed output\<close>

text \<open>
  A request is a \<^verbatim>\<open>GET\<close> of a URL or a \<^verbatim>\<open>POST\<close> of a JSON body to a URL (the headers
  are the same in every request and are left out). The service answers a request with
  the parsed body, or the request raises. No operation sends the same request twice, so
  a function of the request describes every behaviour of the service within one call.
  For a \<^verbatim>\<open>POST\<close> the script does not read the body: only whether it raised counts.
\<close>

datatype request = GET string | POST string json

type_synonym server = "request \<Rightarrow> exn + json"

text \<open>
  A printed line follows the f-string that produced it: \<open>Lit\<close> is literal text,
  \<open>Uni\<close> one literal code point above 255, \<open>Val v\<close> the text \<^verbatim>\<open>str(v)\<close> of a
  value (for a string, the string itself), \<open>Len n\<close> the decimal text of a length and
  \<open>Exc e\<close> the message of an exception.
\<close>

datatype piece = Lit string | Uni nat | Val json | Len nat | Exc exn

type_synonym line = "piece list"

text \<open>
  A block that prints: the lines printed so far, and the value it computed or the
  exception that ended it. The lines printed before an exception stay printed.
\<close>

type_synonym 'a io = "line list \<times> (exn + 'a)"

definition say :: "line \<Rightarrow> unit io" where
  "say l = ([l], Inr ())"

definition lift :: "exn + 'a \<Rightarrow> 'a io" where
  "lift m = ([], m)"

definition bind_io :: "'a io \<Rightarrow> ('a \<Rightarrow> 'b io) \<Rightarrow> 'b io" where
  "bind_io m f =
     (case snd m of
        Inl e \<Rightarrow> (fst m, Inl e)
      | Inr v \<Rightarrow> (fst m @ fst (f v), snd (f v)))"

text \<open>
  What a call did: the requests it sent, the lines it printed, and what it returned.
\<close>

record 'a outcome =
  requests :: "request list"
  printed :: "line list"
  result :: 'a

text \<open>
  The fields of a \<^verbatim>\<open>JiraHelper\<close>. The field \<^verbatim>\<open>auth_b64\<close>, the base64 text of email and
  token, only goes into the headers, which requests here do not carry.
\<close>

record helper =
  url :: string
  email :: string
  token :: string

section \<open>\<^verbatim>\<open>list_tickets\<close>\<close>

record ticket =
  key :: string
  summary :: string
  assignee :: json

type_synonym tickets_found = "json \<rightharpoonup> ticket list"

definition issue_url :: "helper \<Rightarrow> string \<Rightarrow> string" where
  "issue_url h ticket_key = url h @ ''/rest/api/3/issue/'' @ ticket_key"

definition ticket_key_of :: "string \<Rightarrow> int \<Rightarrow> string" where
  "ticket_key_of project ticket_id = project @ ''-'' @ str_of_int ticket_id"

text \<open>\<^verbatim>\<open>summary[:60] + ('...' if len(summary) > 60 else '')\<close>: only a string gets through.\<close>

fun truncate_summary :: "json \<Rightarrow> exn + string" where
  "truncate_summary (JStr s) = Inr (take 60 s @ (if length s > 60 then ''...'' else []))"
| "truncate_summary _ = Inl TypeError"

text \<open>
  \<^verbatim>\<open>assignee.get('displayName', 'Unassigned') if assignee else 'Unassigned'\<close>
\<close>

definition assignee_name_of :: "json \<Rightarrow> exn + json" where
  "assignee_name_of a =
     (if truthy a then py_get a ''displayName'' (JStr ''Unassigned'')
      else Inr (JStr ''Unassigned''))"

text \<open>
  The four reads at the head of the \<^verbatim>\<open>try\<close> block: the summary, the status name and
  the assignee name of a response.
\<close>

definition read_fields :: "json \<Rightarrow> exn + (json \<times> json \<times> json)" where
  "read_fields data =
     bind_exn (py_get data ''fields'' (JObj [])) (\<lambda>flds.
     bind_exn (py_get flds ''summary'' (JStr ''No summary'')) (\<lambda>summ.
     bind_exn (py_get flds ''status'' (JObj [])) (\<lambda>st.
     bind_exn (py_get st ''name'' (JStr ''Unknown'')) (\<lambda>status.
     bind_exn (py_get flds ''assignee'' (JObj [])) (\<lambda>a.
     bind_exn (assignee_name_of a) (\<lambda>assignee_name.
       Inr (summ, status, assignee_name)))))))"

text \<open>
  The rest of the \<^verbatim>\<open>try\<close> block, on the dict of tickets found so far. The empty
  list for a new status is stored before the summary is cut, so it stays when cutting
  the summary raises.
\<close>

definition store_ticket :: "string \<Rightarrow> json \<Rightarrow> tickets_found \<Rightarrow> tickets_found \<times> (exn + unit)" where
  "store_ticket ticket_key data found =
     (case read_fields data of
        Inl e \<Rightarrow> (found, Inl e)
      | Inr (summ, status, assignee_name) \<Rightarrow>
          (case dict_key status of
             Inl e \<Rightarrow> (found, Inl e)
           | Inr k \<Rightarrow>
               (let found1 = (if found k = None then found(k \<mapsto> []) else found)
                in (case truncate_summary summ of
                      Inl e \<Rightarrow> (found1, Inl e)
                    | Inr s \<Rightarrow>
                        (let old = (case found1 k of None \<Rightarrow> [] | Some ts \<Rightarrow> ts);
                             t = \<lparr>key = ticket_key, summary = s, assignee = assignee_name\<rparr>
                         in (found1(k \<mapsto> old @ [t]), Inr ()))))))"

text \<open>One round of the loop: the request, the \<^verbatim>\<open>try\<close> block, and \<^verbatim>\<open>except: pass\<close>.\<close>

definition fetch_candidate :: "helper \<Rightarrow> server \<Rightarrow> string \<Rightarrow> tickets_found \<Rightarrow> int \<Rightarrow> tickets_found" where
  "fetch_candidate h srv project found ticket_id =
     (let ticket_key = ticket_key_of project ticket_id
      in case srv (GET (issue_url h ticket_key)) of
           Inl e \<Rightarrow> found
         | Inr data \<Rightarrow> fst (store_ticket ticket_key data found))"

text \<open>\<^verbatim>\<open>range(max_results, 0, -1)\<close>\<close>

definition candidates :: "int \<Rightarrow> int list" where
  "candidates max_results = rev [1..max_results]"

definition fetch_all :: "helper \<Rightarrow> server \<Rightarrow> string \<Rightarrow> int \<Rightarrow> tickets_found" where
  "fetch_all h srv project max_results =
     foldl (fetch_candidate h srv project) Map.empty (candidates max_results)"

subsection \<open>Display by status\<close>

definition status_order :: "string list" where
  "status_order = [''Gathering Requirements'', ''Ready for Dev'', ''In Progress'',
     ''Ready for QA'', ''Client QA'', ''Ready for Deploy'', ''Done'']"

text \<open>The sort key \<^verbatim>\<open>int(x['key'].split('-')[1])\<close>.\<close>

definition sort_key_of :: "ticket \<Rightarrow> exn + int" where
  "sort_key_of t = bind_exn (py_index (py_split CHR ''-'' (key t)) 1) py_int"

fun map_exn :: "('a \<Rightarrow> exn + 'b) \<Rightarrow> 'a list \<Rightarrow> exn + 'b list" where
  "map_exn f [] = Inr []"
| "map_exn f (x # xs) = bind_exn (f x) (\<lambda>y. bind_exn (map_exn f xs) (\<lambda>ys. Inr (y # ys)))"

text \<open>
  \<^verbatim>\<open>sorted(ts, key=..., reverse=True)\<close>: the keys are computed first, in order; the sort
  is stable, and the reversed sort is the stable sort of the reversed list, reversed.
\<close>

definition sorted_tickets :: "ticket list \<Rightarrow> exn + ticket list" where
  "sorted_tickets ts =
     bind_exn (map_exn sort_key_of ts)
       (\<lambda>ks. Inr (map snd (rev (sort_key fst (rev (zip ks ts))))))"

definition ticket_line :: "ticket \<Rightarrow> line" where
  "ticket_line t = [Lit ''  '', Val (JStr (key t)), Lit '': '', Val (JStr (summary t))]"

definition assignee_line :: "ticket \<Rightarrow> line" where
  "assignee_line t = [Lit ''    '', Uni 0x2192, Lit '' Assignee: '', Val (assignee t)]"

definition ticket_lines :: "ticket \<Rightarrow> line list" where
  "ticket_lines t =
     ticket_line t # (if assignee t \<noteq> JStr ''Unassigned'' then [assignee_line t] else [])"

definition group_header :: "string \<Rightarrow> nat \<Rightarrow> line" where
  "group_header status n = [Lit [CHR 0x0A, CHR ''[''], Val (JStr status), Lit ''] ('', Len n, Lit '' tickets)'']"

text \<open>The lines of one displayed status; the sort may raise after the two head lines.\<close>

definition print_group :: "string \<Rightarrow> ticket list \<Rightarrow> line list \<times> (exn + unit)" where
  "print_group status ts =
     (let head = [group_header status (length ts), [Lit (replicate 70 CHR ''-'')]]
      in case sorted_tickets ts of
           Inl e \<Rightarrow> (head, Inl e)
         | Inr sorted_ts \<Rightarrow> (head @ concat (map ticket_lines sorted_ts), Inr ()))"

text \<open>
  The loop over the statuses in their fixed order. It gives the lines of each displayed
  status as one group, in the order printed; what is printed is the groups one after
  the other. An exception in a group ends the loop after the lines of that group.
\<close>

fun display :: "tickets_found \<Rightarrow> string list \<Rightarrow> line list list \<times> (exn + unit)" where
  "display found [] = ([], Inr ())"
| "display found (status # rest) =
     (case found (JStr status) of
        None \<Rightarrow> display found rest
      | Some ts \<Rightarrow>
          if status \<in> set [''Done'', ''Ready for Deploy''] then display found rest
          else (case snd (print_group status ts) of
                  Inl e \<Rightarrow> ([fst (print_group status ts)], Inl e)
                | Inr u \<Rightarrow> (fst (print_group status ts) # fst (display found rest),
                            snd (display found rest))))"

definition shown_groups :: "helper \<Rightarrow> server \<Rightarrow> string \<Rightarrow> int \<Rightarrow> line list list" where
  "shown_groups h srv project max_results =
     fst (display (fetch_all h srv project max_results) status_order)"

text \<open>
  \<open>result\<close> is \<open>Inr ()\<close> when the call returns (it returns nothing) and \<open>Inl e\<close> when
  the exception \<open>e\<close> leaves it.
\<close>

definition list_tickets :: "helper \<Rightarrow> server \<Rightarrow> string \<Rightarrow> int \<Rightarrow> (exn + unit) outcome" where
  "list_tickets h srv project max_results =
     \<lparr>requests = map (\<lambda>i. GET (issue_url h (ticket_key_of project i))) (candidates max_results),
      printed = [[Lit [CHR 0x0A], Val (JStr project), Lit '' Tickets:''],
                 [Lit (replicate 80 CHR ''='')]]
                @ concat (shown_groups h srv project max_results),
      result = snd (display (fetch_all h srv project max_results) status_order)\<rparr>"

section \<open>\<^verbatim>\<open>update_status\<close>\<close>

definition transitions_url :: "helper \<Rightarrow> string \<Rightarrow> string" where
  "transitions_url h ticket_key = url h @ ''/rest/api/3/issue/'' @ ticket_key @ ''/transitions''"

text \<open>
  The loop that looks for the transition: it stops at the first transition whose name,
  in lower case, is the requested name in lower case, and gives its id; without such a
  transition the id stays \<^verbatim>\<open>None\<close>.
\<close>

fun find_transition :: "json list \<Rightarrow> string \<Rightarrow> exn + json" where
  "find_transition [] new_status = Inr JNull"
| "find_transition (transition # rest) new_status =
     bind_exn (py_subscript transition ''name'') (\<lambda>name.
     bind_exn (py_lower name) (\<lambda>l.
       if l = lower new_status then py_subscript transition ''id''
       else find_transition rest new_status))"

definition find_transition_id :: "json \<Rightarrow> string \<Rightarrow> exn + json" where
  "find_transition_id data new_status =
     bind_exn (py_get data ''transitions'' (JArr [])) (\<lambda>transitions.
     bind_exn (py_iter transitions) (\<lambda>items. find_transition items new_status))"

definition not_available_line :: "string \<Rightarrow> line" where
  "not_available_line new_status =
     [Lit (''Status '' @ [CHR 0x27]), Val (JStr new_status), Lit (CHR 0x27 # '' not available'')]"

definition updated_line :: "string \<Rightarrow> string \<Rightarrow> line" where
  "updated_line ticket_key new_status =
     [Uni 0x2705, Lit '' Updated '', Val (JStr ticket_key), Lit '' to '', Val (JStr new_status)]"

definition failed_line :: "exn \<Rightarrow> line" where
  "failed_line e = [Uni 0x274C, Lit '' Failed: '', Exc e]"

definition transition_data :: "json \<Rightarrow> json" where
  "transition_data transition_id = JObj [(''transition'', JObj [(''id'', transition_id)])]"

definition update_status :: "helper \<Rightarrow> server \<Rightarrow> string \<Rightarrow> string \<Rightarrow> bool outcome" where
  "update_status h srv ticket_key new_status =
     (let u = transitions_url h ticket_key
      in case bind_exn (srv (GET u)) (\<lambda>data. find_transition_id data new_status) of
           Inl e \<Rightarrow> \<lparr>requests = [GET u], printed = [failed_line e], result = False\<rparr>
         | Inr transition_id \<Rightarrow>
             if \<not> truthy transition_id
             then \<lparr>requests = [GET u], printed = [not_available_line new_status], result = False\<rparr>
             else (case srv (POST u (transition_data transition_id)) of
                     Inl e \<Rightarrow> \<lparr>requests = [GET u, POST u (transition_data transition_id)],
                               printed = [failed_line e], result = False\<rparr>
                   | Inr response \<Rightarrow>
                             \<lparr>requests = [GET u, POST u (transition_data transition_id)],
                               printed = [updated_line ticket_key new_status], result = True\<rparr>))"

section \<open>\<^verbatim>\<open>get_ticket\<close>\<close>

fun is_dict :: "json \<Rightarrow> bool" where
  "is_dict (JObj kvs) = True"
| "is_dict _ = False"

text \<open>The inner loop: the text runs of one paragraph.\<close>

fun print_items :: "json list \<Rightarrow> unit io" where
  "print_items [] = ([], Inr ())"
| "print_items (item # rest) =
     bind_io (lift (py_get item ''type'' JNull)) (\<lambda>ty.
     bind_io (if ty = JStr ''text''
              then bind_io (lift (py_get item ''text'' (JStr []))) (\<lambda>v. say [Val v])
              else ([], Inr ())) (\<lambda>u.
       print_items rest))"

text \<open>The outer loop: only the blocks of type paragraph are looked into.\<close>

fun print_blocks :: "json list \<Rightarrow> unit io" where
  "print_blocks [] = ([], Inr ())"
| "print_blocks (block # rest) =
     bind_io (lift (py_get block ''type'' JNull)) (\<lambda>ty.
     bind_io (if ty = JStr ''paragraph''
              then bind_io (lift (bind_exn (py_get block ''content'' (JArr [])) py_iter)) print_items
              else ([], Inr ())) (\<lambda>u.
       print_blocks rest))"

definition error_line :: "exn \<Rightarrow> line" where
  "error_line e = [Lit ''Error: '', Exc e]"

text \<open>The \<^verbatim>\<open>try\<close> block after the response has been parsed.\<close>

definition print_ticket :: "string \<Rightarrow> json \<Rightarrow> unit io" where
  "print_ticket ticket_key data =
     bind_io (lift (py_get data ''fields'' (JObj []))) (\<lambda>flds.
     bind_io (lift (py_get flds ''summary'' (JStr ''No summary''))) (\<lambda>summ.
     bind_io (say [Lit [CHR 0x0A], Val (JStr ticket_key), Lit '': '', Val summ]) (\<lambda>u.
     bind_io (lift (bind_exn (py_get flds ''status'' (JObj []))
                      (\<lambda>st. py_get st ''name'' (JStr ''Unknown'')))) (\<lambda>status.
     bind_io (say [Lit ''Status: '', Val status]) (\<lambda>u.
     bind_io (lift (py_get flds ''assignee'' (JObj []))) (\<lambda>a.
     bind_io (lift (assignee_name_of a)) (\<lambda>assignee_name.
     bind_io (say [Lit ''Assignee: '', Val assignee_name]) (\<lambda>u.
     bind_io (lift (py_get flds ''description'' JNull)) (\<lambda>description.
       if truthy description \<and> is_dict description
       then bind_io (say [Lit (CHR 0x0A # ''Description:'')]) (\<lambda>u.
            bind_io (lift (bind_exn (py_get description ''content'' (JArr [])) py_iter))
              print_blocks)
       else ([], Inr ()))))))))))"

text \<open>\<open>result\<close> is \<open>Some data\<close> for \<^verbatim>\<open>return data\<close> and \<open>None\<close> for \<^verbatim>\<open>return None\<close>.\<close>

definition get_ticket :: "helper \<Rightarrow> server \<Rightarrow> string \<Rightarrow> json option outcome" where
  "get_ticket h srv ticket_key =
     (let u = issue_url h ticket_key
      in case srv (GET u) of
           Inl e \<Rightarrow> \<lparr>requests = [GET u], printed = [error_line e], result = None\<rparr>
         | Inr data \<Rightarrow>
             (case snd (print_ticket ticket_key data) of
                Inl e \<Rightarrow> \<lparr>requests = [GET u],
                          printed = fst (print_ticket ticket_key data) @ [error_line e],
                          result = None\<rparr>
              | Inr u' \<Rightarrow> \<lparr>requests = [GET u],
                          printed = fst (print_ticket ticket_key data),
                          result = Some data\<rparr>))"

section \<open>The command line\<close>

text \<open>
  The constructor: \<open>pass_file\<close> is what reading the token file gave, its text or the
  exception. The token is stripped, and the credentials must encode as ASCII.
\<close>

definition init :: "exn + string \<Rightarrow> exn + helper" where
  "init pass_file =
     bind_exn pass_file (\<lambda>content.
       let h = \<lparr>url = ''https://jaxondigital.atlassian.net'',
                email = ''bgerby@jaxondigital.com'',
                token = strip content\<rparr>
       in if list_all (\<lambda>c. (of_char c :: nat) < 128) (email h @ '':'' @ token h)
          then Inr h else Inl UnicodeEncodeError)"

text \<open>
  How the process ends: it runs to its end (exit status 0), it calls \<^verbatim>\<open>sys.exit\<close>
  with a status, or an exception nobody caught ends it.
\<close>

datatype exit = Finished | Exit int | Uncaught exn

definition usage :: "line list" where
  "usage = [[Lit ''Usage:''],
            [Lit ''  python3 jira_helper.py list [PROJECT]''],
            [Lit ''  python3 jira_helper.py get TICKET-KEY''],
            [Lit ''  python3 jira_helper.py status TICKET-KEY NEW-STATUS'']]"

definition main :: "exn + string \<Rightarrow> server \<Rightarrow> string list \<Rightarrow> exit outcome" where
  "main pass_file srv argv =
     (case init pass_file of
        Inl e \<Rightarrow> \<lparr>requests = [], printed = [], result = Uncaught e\<rparr>
      | Inr h \<Rightarrow>
          if length argv < 2
          then \<lparr>requests = [], printed = usage, result = Exit 1\<rparr>
          else if argv ! 1 = ''list''
          then (let r = list_tickets h srv (if length argv > 2 then argv ! 2 else ''DXP'') 30
                in \<lparr>requests = requests r, printed = printed r,
                    result = (case result r of Inl e \<Rightarrow> Uncaught e | Inr u \<Rightarrow> Finished)\<rparr>)
          else if argv ! 1 = ''get''
          then (if length argv < 3
                then \<lparr>requests = [], printed = [[Lit ''Please specify ticket key (e.g., DXP-28)'']],
                      result = Exit 1\<rparr>
                else (let r = get_ticket h srv (argv ! 2)
                      in \<lparr>requests = requests r, printed = printed r, result = Finished\<rparr>))
          else if argv ! 1 = ''status''
          then (if length argv < 4
                then \<lparr>requests = [],
                      printed = [[Lit ''Usage: python3 jira_helper.py status TICKET-KEY NEW-STATUS'']],
                      result = Exit 1\<rparr>
                else (let r = update_status h srv (argv ! 2) (argv ! 3)
                      in \<lparr>requests = requests r, printed = printed r, result = Finished\<rparr>))
          else \<lparr>requests = [], printed = [], result = Finished\<rparr>)"

section \<open>Reading a response and the printed lines\<close>

text \<open>
  The status name and the summary as the script reads them from a response:
  \<^verbatim>\<open>data.get('fields', {}).get('status', {}).get('name', 'Unknown')\<close> and
  \<^verbatim>\<open>data.get('fields', {}).get('summary', 'No summary')\<close>.
\<close>

definition status_of :: "json \<Rightarrow> exn + json" where
  "status_of data =
     bind_exn (py_get data ''fields'' (JObj [])) (\<lambda>flds.
     bind_exn (py_get flds ''status'' (JObj [])) (\<lambda>st.
       py_get st ''name'' (JStr ''Unknown'')))"

definition summary_of :: "json \<Rightarrow> exn + json" where
  "summary_of data =
     bind_exn (py_get data ''fields'' (JObj [])) (\<lambda>flds.
       py_get flds ''summary'' (JStr ''No summary''))"

text \<open>
  What one candidate adds to the tickets found: nothing when the request or the reads
  raise; otherwise the key of its status and the ticket appended there (no ticket when
  cutting the summary raised).
\<close>

definition entry :: "helper \<Rightarrow> server \<Rightarrow> string \<Rightarrow> int \<Rightarrow> (json \<times> ticket list) option" where
  "entry h srv project ticket_id =
     (case srv (GET (issue_url h (ticket_key_of project ticket_id))) of
        Inl e \<Rightarrow> None
      | Inr data \<Rightarrow>
          (case read_fields data of
             Inl e \<Rightarrow> None
           | Inr (summ, status, assignee_name) \<Rightarrow>
               (case dict_key status of
                  Inl e \<Rightarrow> None
                | Inr k \<Rightarrow>
                    Some (k, case truncate_summary summ of
                               Inl e \<Rightarrow> []
                             | Inr s \<Rightarrow> [\<lparr>key = ticket_key_of project ticket_id, summary = s,
                                          assignee = assignee_name\<rparr>]))))"

definition stored :: "helper \<Rightarrow> server \<Rightarrow> string \<Rightarrow> json \<Rightarrow> int \<Rightarrow> ticket list" where
  "stored h srv project k ticket_id =
     (case entry h srv project ticket_id of
        None \<Rightarrow> []
      | Some (k', ts) \<Rightarrow> if k' = k then ts else [])"

definition old_list :: "tickets_found \<Rightarrow> json \<Rightarrow> ticket list" where
  "old_list found k = (case found k of None \<Rightarrow> [] | Some ts \<Rightarrow> ts)"

text \<open>The sort key as a function of the ticket key.\<close>

definition key_number :: "string \<Rightarrow> exn + int" where
  "key_number s = bind_exn (py_index (py_split CHR ''-'' s) 1) py_int"

text \<open>
  The ticket a printed line shows: a line of the form \<^verbatim>\<open>f"  {key}: {summary}"\<close> shows
  the ticket with that key and that displayed summary; no other line shows a ticket.
\<close>

fun shown_ticket :: "line \<Rightarrow> (string \<times> string) option" where
  "shown_ticket [Lit a, Val (JStr k), Lit b, Val (JStr d)] =
     (if a = ''  '' \<and> b = '': '' then Some (k, d) else None)"
| "shown_ticket l = None"

fun shown_tickets :: "line list \<Rightarrow> (string \<times> string) list" where
  "shown_tickets [] = []"
| "shown_tickets (l # ls) =
     (case shown_ticket l of None \<Rightarrow> shown_tickets ls | Some kd \<Rightarrow> kd # shown_tickets ls)"

definition shown_keys :: "line list \<Rightarrow> string list" where
  "shown_keys ls = map fst (shown_tickets ls)"

text \<open>
  The numeric suffix of a ticket key \<^verbatim>\<open>{project}-{integer}\<close>: the integer after the last
  hyphen.
\<close>

definition numeric_suffix :: "string \<Rightarrow> int option" where
  "numeric_suffix k =
     (case py_int (last (py_split CHR ''-'' k)) of Inl e \<Rightarrow> None | Inr n \<Rightarrow> Some n)"

section \<open>An example service\<close>

text \<open>
  A service with two projects. In DXP, ticket 1 is done and ticket 2 is in progress, has
  a summary of 67 characters and an assignee, and can move to two statuses. In OPS,
  ticket 1 has a status outside the fixed order, ticket 2 has no status, and tickets 3
  and 4 are ready for QA. Every other request fails.
\<close>

definition demo_helper :: helper where
  "demo_helper = \<lparr>url = ''https://jaxondigital.atlassian.net'',
                   email = ''bgerby@jaxondigital.com'', token = ''secret''\<rparr>"

definition demo_issue :: "string \<Rightarrow> string \<Rightarrow> json \<Rightarrow> json" where
  "demo_issue summ status a =
     JObj [(''fields'', JObj [(''summary'', JStr summ),
                              (''status'', JObj [(''name'', JStr status)]),
                              (''assignee'', a)])]"

definition demo_long :: string where
  "demo_long = ''Download endpoint returns the wrong content type for large archives''"

definition demo_no_status :: json where
  "demo_no_status = JObj [(''fields'', JObj [(''summary'', JStr ''Untriaged report'')])]"

definition demo_transitions :: json where
  "demo_transitions =
     JObj [(''transitions'',
            JArr [JObj [(''id'', JStr ''21''), (''name'', JStr ''Ready for QA'')],
                  JObj [(''id'', JStr ''31''), (''name'', JStr ''Done'')]])]"

definition demo_server :: server where
  "demo_server req =
     (if req = GET ''https://jaxondigital.atlassian.net/rest/api/3/issue/DXP-1''
      then Inr (demo_issue ''Set up the project'' ''Done'' JNull)
      else if req = GET ''https://jaxondigital.atlassian.net/rest/api/3/issue/DXP-2''
      then Inr (demo_issue demo_long ''In Progress''
                  (JObj [(''displayName'', JStr ''Brian G'')]))
      else if req = GET ''https://jaxondigital.atlassian.net/rest/api/3/issue/DXP-2/transitions''
      then Inr demo_transitions
      else if req = GET ''https://jaxondigital.atlassian.net/rest/api/3/issue/OPS-1''
      then Inr (demo_issue ''Rotate the keys'' ''Blocked'' JNull)
      else if req = GET ''https://jaxondigital.atlassian.net/rest/api/3/issue/OPS-2''
      then Inr demo_no_status
      else if req = GET ''https://jaxondigital.atlassian.net/rest/api/3/issue/OPS-3''
      then Inr (demo_issue ''Renew the certificate'' ''Ready for QA'' JNull)
      else if req = GET ''https://jaxondigital.atlassian.net/rest/api/3/issue/OPS-4''
      then Inr (demo_issue ''Archive old logs'' ''Ready for QA'' JNull)
      else Inl (RequestError ''HTTP Error 404: Not Found''))"

section \<open>Facts about the model\<close>

subsection \<open>Decimal text and \<^verbatim>\<open>int\<close> are inverse on the candidate numbers\<close>

lemma is_digit_digit_char: "d < 10 \<Longrightarrow> is_digit (digit_char d)"
  by (simp add: is_digit_def digit_char_def)

lemma digit_val_digit_char: "d < 10 \<Longrightarrow> digit_val (digit_char d) = d"
  by (simp add: digit_val_def digit_char_def)

lemma str_of_nat_digits: "list_all is_digit (str_of_nat n)"
proof (induction n rule: str_of_nat.induct)
  case (1 n)
  show ?case
  proof (cases "n < 10")
    case True
    then show ?thesis by (simp add: str_of_nat.simps [of n] is_digit_digit_char)
  next
    case False
    with 1 show ?thesis by (simp add: str_of_nat.simps [of n] is_digit_digit_char)
  qed
qed

lemma str_of_nat_not_Nil: "str_of_nat n \<noteq> []"
  by (simp add: str_of_nat.simps [of n])

lemma parse_digits_append:
  "list_all is_digit xs \<Longrightarrow>
   parse_digits (xs @ ys) acc = (case parse_digits xs acc of None \<Rightarrow> None | Some a \<Rightarrow> parse_digits ys a)"
  by (induction xs arbitrary: acc) auto

lemma parse_digits_str_of_nat: "parse_digits (str_of_nat n) 0 = Some n"
proof (induction n rule: str_of_nat.induct)
  case (1 n)
  show ?case
  proof (cases "n < 10")
    case True
    then show ?thesis
      by (simp add: str_of_nat.simps [of n] is_digit_digit_char digit_val_digit_char)
  next
    case False
    with 1 have "parse_digits (str_of_nat (n div 10)) 0 = Some (n div 10)" by simp
    with False show ?thesis
      by (simp add: str_of_nat.simps [of n] parse_digits_append str_of_nat_digits
          is_digit_digit_char digit_val_digit_char)
  qed
qed

lemma digit_not_space: "is_digit c \<Longrightarrow> \<not> is_space c"
  by (auto simp: is_digit_def is_space_def Let_def)

lemma strip_digits: "list_all is_digit xs \<Longrightarrow> strip xs = xs"
proof (cases xs)
  case Nil
  then show ?thesis by (simp add: strip_def)
next
  case (Cons x xs')
  assume d: "list_all is_digit xs"
  have 1: "dropWhile is_space xs = xs"
    using d Cons by (simp add: digit_not_space)
  have "list_all is_digit (rev xs)" using d by (simp add: list_all_iff)
  moreover have "rev xs \<noteq> []" using Cons by simp
  ultimately have 2: "dropWhile is_space (rev xs) = rev xs"
    by (cases "rev xs") (simp_all add: digit_not_space)
  show ?thesis by (simp add: strip_def 1 2)
qed

lemma is_digit_not_sign: "is_digit c \<Longrightarrow> c \<noteq> CHR ''-'' \<and> c \<noteq> CHR ''+''"
  by (auto simp: is_digit_def)

lemma py_int_digits:
  assumes "list_all is_digit s" and "s \<noteq> []" and "parse_digits s 0 = Some n"
  shows "py_int s = Inr (int n)"
proof -
  have st: "strip s = s" using assms(1) by (rule strip_digits)
  have "is_digit (hd s)" using assms(1,2) by (cases s) auto
  then have "is_digit (hd s) \<and> hd s \<noteq> CHR ''-'' \<and> hd s \<noteq> CHR ''+''"
    using is_digit_not_sign by blast
  then show ?thesis
    using assms(2,3) by (simp add: py_int_def st Let_def)
qed

lemma py_int_str_of_nat: "py_int (str_of_nat n) = Inr (int n)"
  by (rule py_int_digits [OF str_of_nat_digits str_of_nat_not_Nil parse_digits_str_of_nat])

lemma py_int_str_of_int: "0 \<le> i \<Longrightarrow> py_int (str_of_int i) = Inr i"
  by (simp add: str_of_int_def py_int_str_of_nat)

subsection \<open>Splitting a ticket key at the hyphens\<close>

lemma py_split_not_Nil: "py_split c xs \<noteq> []"
  by (induction xs) (auto split: list.splits)

lemma hd_py_split: "hd (py_split c xs) = takeWhile (\<lambda>x. x \<noteq> c) xs"
  by (induction xs) (auto split: list.splits simp: py_split_not_Nil)

lemma py_split_append: "c \<notin> set a \<Longrightarrow> py_split c (a @ c # ys) = a # py_split c ys"
  by (induction a) (auto split: list.splits)

lemma py_split_none: "c \<notin> set a \<Longrightarrow> py_split c a = [a]"
  by (induction a) (auto split: list.splits)

lemma length_py_split: "length (py_split c xs) = Suc (length (filter (\<lambda>x. x = c) xs))"
  by (induction xs) (auto split: list.splits)

lemma last_py_split: "c \<notin> set ys \<Longrightarrow> last (py_split c (xs @ c # ys)) = ys"
proof (induction xs)
  case Nil
  then show ?case by (simp add: py_split_none)
next
  case (Cons x xs)
  have "length (py_split c (xs @ c # ys)) \<ge> 2"
    by (simp add: length_py_split)
  then obtain p q ps where "py_split c (xs @ c # ys) = p # q # ps"
    by (metis Suc_le_length_iff numeral_2_eq_2)
  with Cons show ?case by auto
qed

lemma second_py_split:
  "py_index (py_split c (p @ c # ys)) 1 =
     Inr (if c \<in> set p then takeWhile (\<lambda>x. x \<noteq> c) (tl (dropWhile (\<lambda>x. x \<noteq> c) p))
          else takeWhile (\<lambda>x. x \<noteq> c) ys)"
proof (cases "c \<in> set p")
  case False
  then show ?thesis
    using py_split_not_Nil [of c ys]
    by (cases "py_split c ys") (auto simp: py_split_append py_index_def hd_py_split [symmetric])
next
  case True
  then obtain a b where p: "p = a @ c # b" and a: "c \<notin> set a"
    by (meson split_list_first)
  have dw: "dropWhile (\<lambda>x. x \<noteq> c) p = c # b"
    using a by (auto simp: p dropWhile_append3)
  have "py_split c (p @ c # ys) = a # py_split c (b @ c # ys)"
    using a by (simp add: p py_split_append)
  moreover have "takeWhile (\<lambda>x. x \<noteq> c) (b @ c # ys) = takeWhile (\<lambda>x. x \<noteq> c) b"
    by (induction b) auto
  ultimately show ?thesis
    using True py_split_not_Nil [of c "b @ c # ys"] hd_py_split [of c "b @ c # ys"]
    by (cases "py_split c (b @ c # ys)") (auto simp: py_index_def dw)
qed

subsection \<open>What the loop over the candidates leaves in the dict\<close>

text \<open>
  Under a key the dict holds, in the order of the candidates, the tickets of the
  candidates stored under that key; the key is present as soon as one candidate reached
  the test for it.
\<close>

lemma fetch_candidate_entry:
  "fetch_candidate h srv project found i =
     (case entry h srv project i of
        None \<Rightarrow> found
      | Some (k, ts) \<Rightarrow> found(k \<mapsto> old_list found k @ ts))"
  by (auto simp: fetch_candidate_def entry_def store_ticket_def old_list_def Let_def
      split: sum.splits prod.splits option.splits)

lemma fetch_candidate_at:
  "fetch_candidate h srv project found i k =
     (if \<exists>ts. entry h srv project i = Some (k, ts)
      then Some (old_list found k @ stored h srv project k i)
      else found k)"
  by (auto simp: fetch_candidate_entry stored_def split: option.splits)

lemma stored_Nil: "\<not> (\<exists>ts. entry h srv project i = Some (k, ts)) \<Longrightarrow> stored h srv project k i = []"
  by (auto simp: stored_def split: option.splits)

lemma foldl_fetch_candidate:
  "foldl (fetch_candidate h srv project) found is k =
     (if \<exists>i\<in>set is. \<exists>ts. entry h srv project i = Some (k, ts)
      then Some (old_list found k @ concat (map (stored h srv project k) is))
      else found k)"
proof (induction "is" arbitrary: found)
  case Nil
  then show ?case by simp
next
  case (Cons i "is")
  show ?case
  proof (cases "\<exists>ts. entry h srv project i = Some (k, ts)")
    case True
    then have "fetch_candidate h srv project found i k = Some (old_list found k @ stored h srv project k i)"
      by (simp add: fetch_candidate_at)
    then have "old_list (fetch_candidate h srv project found i) k = old_list found k @ stored h srv project k i"
      by (simp add: old_list_def)
    with True show ?thesis
      using \<open>fetch_candidate h srv project found i k = Some (old_list found k @ stored h srv project k i)\<close>
      by (auto simp: Cons.IH stored_Nil)
  next
    case False
    then have 1: "fetch_candidate h srv project found i k = found k"
      by (simp add: fetch_candidate_at)
    then have 2: "old_list (fetch_candidate h srv project found i) k = old_list found k"
      by (simp add: old_list_def)
    from False show ?thesis
      by (auto simp: Cons.IH 1 2 stored_Nil)
  qed
qed

lemma fetch_all_at:
  "fetch_all h srv project max_results k =
     (if \<exists>i\<in>set (candidates max_results). \<exists>ts. entry h srv project i = Some (k, ts)
      then Some (concat (map (stored h srv project k) (candidates max_results)))
      else None)"
  by (simp add: fetch_all_def foldl_fetch_candidate old_list_def)

subsection \<open>Sorting and printing a group\<close>

lemma bind_exn_simps [simp]:
  "bind_exn (Inl e) f = Inl e" "bind_exn (Inr v) f = f v"
  by (simp_all add: bind_exn_def)

lemma bind_exn_Inr_iff: "bind_exn m f = Inr y \<longleftrightarrow> (\<exists>v. m = Inr v \<and> f v = Inr y)"
  by (cases m) auto

lemma map_exn_Inr: "map_exn f xs = Inr ys \<longleftrightarrow> list_all2 (\<lambda>x y. f x = Inr y) xs ys"
proof (induction xs arbitrary: ys)
  case Nil
  then show ?case by auto
next
  case (Cons x xs)
  then show ?case
    by (cases ys) (auto simp: bind_exn_Inr_iff)
qed

lemma map_exn_map: "map_exn f (map g xs) = map_exn (\<lambda>x. f (g x)) xs"
  by (induction xs) auto

lemma sorted_tickets_same:
  assumes "map_exn sort_key_of ts = Inr ks" and "sorted_wrt (\<lambda>a b. b \<le> a) ks"
  shows "sorted_tickets ts = Inr ts"
proof -
  have len: "length ts = length ks"
    using assms(1) by (auto simp: map_exn_Inr dest: list_all2_lengthD)
  have "map fst (rev (zip ks ts)) = rev ks"
    using len by (simp add: rev_map [symmetric])
  moreover have "sorted (rev ks)"
    using assms(2) by (simp add: sorted_wrt_rev)
  ultimately have "sort_key fst (rev (zip ks ts)) = rev (zip ks ts)"
    by (simp add: sort_key_id_if_sorted)
  then show ?thesis
    using assms(1) len by (simp add: sorted_tickets_def)
qed

lemma sorted_tickets_set: "sorted_tickets ts = Inr ts' \<Longrightarrow> set ts' = set ts"
proof -
  assume a: "sorted_tickets ts = Inr ts'"
  then obtain ks where ks: "map_exn sort_key_of ts = Inr ks"
    and ts': "ts' = map snd (rev (sort_key fst (rev (zip ks ts))))"
    by (auto simp: sorted_tickets_def bind_exn_Inr_iff)
  have len: "length ts = length ks"
    using ks by (auto simp: map_exn_Inr dest: list_all2_lengthD)
  have "set ts' = snd ` set (zip ks ts)" by (simp add: ts')
  also have "\<dots> = set (map snd (zip ks ts))" by simp
  also have "\<dots> = set ts" using len by simp
  finally show ?thesis .
qed

lemma shown_ticket_lines [simp]:
  "shown_ticket (ticket_line t) = Some (key t, summary t)"
  "shown_ticket (assignee_line t) = None"
  "shown_ticket (group_header st n) = None"
  "shown_ticket [Lit s] = None"
  by (simp_all add: ticket_line_def assignee_line_def group_header_def)

lemma shown_tickets_append [simp]: "shown_tickets (xs @ ys) = shown_tickets xs @ shown_tickets ys"
  by (induction xs) (auto split: option.splits)

lemma shown_tickets_ticket_lines:
  "shown_tickets (concat (map ticket_lines ts)) = map (\<lambda>t. (key t, summary t)) ts"
  by (induction ts) (simp_all add: ticket_lines_def)

lemma shown_tickets_print_group:
  "shown_tickets (fst (print_group st ts)) =
     (case sorted_tickets ts of Inl e \<Rightarrow> [] | Inr ts' \<Rightarrow> map (\<lambda>t. (key t, summary t)) ts')"
  by (auto simp: print_group_def Let_def shown_tickets_ticket_lines split: sum.splits)

lemma display_groups:
  "g \<in> set (fst (display found sts)) \<Longrightarrow>
   \<exists>st ts. st \<in> set sts \<and> st \<noteq> ''Done'' \<and> st \<noteq> ''Ready for Deploy'' \<and>
     found (JStr st) = Some ts \<and> g = fst (print_group st ts)"
proof (induction sts)
  case Nil
  then show ?case by simp
next
  case (Cons st sts)
  then show ?case
    by (auto split: option.splits if_splits sum.splits)
qed

subsection \<open>Keys, their numbers, and the order of a group\<close>

lemma candidates_set: "i \<in> set (candidates m) \<longleftrightarrow> 1 \<le> i \<and> i \<le> m"
  by (auto simp: candidates_def)

lemma candidates_descending: "sorted_wrt (\<lambda>a b. b < a) (candidates m)"
  by (simp add: candidates_def sorted_wrt_rev strict_sorted_iff)

lemma str_of_int_digits: "0 \<le> i \<Longrightarrow> list_all is_digit (str_of_int i)"
  by (simp add: str_of_int_def str_of_nat_digits)

lemma dash_not_in_str_of_int: "0 \<le> i \<Longrightarrow> CHR ''-'' \<notin> set (str_of_int i)"
  using str_of_int_digits [of i] is_digit_not_sign by (auto simp: list_all_iff)

lemma numeric_suffix_ticket_key: "0 \<le> i \<Longrightarrow> numeric_suffix (ticket_key_of project i) = Some i"
proof -
  assume i: "0 \<le> i"
  have "last (py_split CHR ''-'' (project @ CHR ''-'' # str_of_int i)) = str_of_int i"
    using i by (intro last_py_split dash_not_in_str_of_int)
  then show ?thesis
    using i by (simp add: numeric_suffix_def ticket_key_of_def py_int_str_of_int)
qed

lemma ticket_key_of_inj:
  "ticket_key_of project i = ticket_key_of project j \<Longrightarrow> 0 \<le> i \<Longrightarrow> 0 \<le> j \<Longrightarrow> i = j"
  by (metis numeric_suffix_ticket_key option.inject)

lemma stored_cases:
  "stored h srv project k i = [] \<or>
   (\<exists>t. stored h srv project k i = [t] \<and> key t = ticket_key_of project i \<and>
        entry h srv project i = Some (k, [t]))"
  by (auto simp: stored_def entry_def split: option.splits sum.splits prod.splits)

lemma keys_of_stored:
  "map key (concat (map (stored h srv project k) cs)) =
     map (ticket_key_of project) (filter (\<lambda>i. stored h srv project k i \<noteq> []) cs)"
proof (induction cs)
  case Nil
  then show ?case by simp
next
  case (Cons i cs)
  then show ?case using stored_cases [of h srv project k i] by auto
qed

lemma sort_key_of_key: "sort_key_of = (\<lambda>t. key_number (key t))"
  by (rule ext) (simp add: sort_key_of_def key_number_def)

lemma takeWhile_all: "c \<notin> set xs \<Longrightarrow> takeWhile (\<lambda>x. x \<noteq> c) xs = xs"
  by (induction xs) auto

lemma key_number_plain:
  "CHR ''-'' \<notin> set project \<Longrightarrow> 0 \<le> i \<Longrightarrow> key_number (ticket_key_of project i) = Inr i"
  using second_py_split [of "CHR ''-''" project "str_of_int i"]
  by (simp add: key_number_def ticket_key_of_def takeWhile_all dash_not_in_str_of_int
      py_int_str_of_int)

lemma key_number_dashed:
  "CHR ''-'' \<in> set project \<Longrightarrow>
   key_number (ticket_key_of project i) =
     py_int (takeWhile (\<lambda>x. x \<noteq> CHR ''-'') (tl (dropWhile (\<lambda>x. x \<noteq> CHR ''-'') project)))"
  using second_py_split [of "CHR ''-''" project "str_of_int i"]
  by (simp add: key_number_def ticket_key_of_def)

lemma descending_keys:
  assumes "list_all2 (\<lambda>i n. key_number (ticket_key_of project i) = Inr n) cs ks"
    and "sorted_wrt (\<lambda>a b. b < a) cs" and "\<forall>i\<in>set cs. 0 \<le> i"
  shows "sorted_wrt (\<lambda>a b. b \<le> a) ks"
proof (cases "CHR ''-'' \<in> set project")
  case False
  have "list_all2 (\<lambda>i n. n = i) cs ks"
    using assms(1,3) False
    by (auto simp: list_all2_conv_all_nth key_number_plain)
  then have "ks = cs"
    by (simp add: list_all2_conv_all_nth list_eq_iff_nth_eq)
  with assms(2) show ?thesis
    by (auto intro: sorted_wrt_mono_rel [of cs "\<lambda>a b. b < a"])
next
  case True
  define r where "r = py_int (takeWhile (\<lambda>x. x \<noteq> CHR ''-'') (tl (dropWhile (\<lambda>x. x \<noteq> CHR ''-'') project)))"
  have "\<forall>n\<in>set ks. r = Inr n"
    using assms(1) True
    by (auto simp: list_all2_conv_all_nth key_number_dashed r_def in_set_conv_nth)
  then have "\<forall>a\<in>set ks. \<forall>b\<in>set ks. a = b" by (metis Inr_inject)
  then have "\<forall>a\<in>set ks. \<forall>b\<in>set ks. b \<le> a" by auto
  then show ?thesis
    by (simp add: sorted_wrt_iff_nth_less)
qed

lemma sorted_tickets_stored:
  assumes "\<forall>i\<in>set cs. 0 \<le> i" and "sorted_wrt (\<lambda>a b. b < a) cs"
    and "sorted_tickets (concat (map (stored h srv project k) cs)) = Inr ts'"
  shows "ts' = concat (map (stored h srv project k) cs)"
proof -
  let ?ts = "concat (map (stored h srv project k) cs)"
  let ?cs = "filter (\<lambda>i. stored h srv project k i \<noteq> []) cs"
  obtain ks where ks: "map_exn sort_key_of ?ts = Inr ks"
    using assms(3) by (auto simp: sorted_tickets_def bind_exn_Inr_iff)
  have "map_exn sort_key_of ?ts = map_exn key_number (map key ?ts)"
    by (simp add: map_exn_map sort_key_of_key)
  also have "\<dots> = map_exn (\<lambda>i. key_number (ticket_key_of project i)) ?cs"
    by (simp add: keys_of_stored map_exn_map)
  finally have "map_exn (\<lambda>i. key_number (ticket_key_of project i)) ?cs = Inr ks"
    using ks by simp
  then have "list_all2 (\<lambda>i n. key_number (ticket_key_of project i) = Inr n) ?cs ks"
    by (simp add: map_exn_Inr)
  moreover have "sorted_wrt (\<lambda>a b. b < a) ?cs"
    using assms(2) by (rule sorted_wrt_filter)
  moreover have "\<forall>i\<in>set ?cs. 0 \<le> i" using assms(1) by simp
  ultimately have "sorted_wrt (\<lambda>a b. b \<le> a) ks" by (rule descending_keys)
  with ks have "sorted_tickets ?ts = Inr ?ts" by (rule sorted_tickets_same)
  with assms(3) show ?thesis by simp
qed

subsection \<open>Where a shown ticket comes from\<close>

lemma read_fields_parts:
  "read_fields data = Inr (summ, status, an) \<Longrightarrow>
   summary_of data = Inr summ \<and> status_of data = Inr status"
  by (auto simp: read_fields_def summary_of_def status_of_def bind_exn_Inr_iff)

lemma truncate_summary_Inr:
  "truncate_summary summ = Inr d \<Longrightarrow>
   \<exists>s. summ = JStr s \<and> d = (if 60 < length s then take 60 s @ ''...'' else s)"
  by (cases summ) auto

lemma dict_key_JStr: "dict_key v = Inr (JStr s) \<Longrightarrow> v = JStr s"
  by (cases v) (auto split: if_splits)

lemma entry_ticket:
  "entry h srv project i = Some (k, [t]) \<Longrightarrow>
   \<exists>data summ status an.
     srv (GET (issue_url h (ticket_key_of project i))) = Inr data \<and>
     read_fields data = Inr (summ, status, an) \<and> dict_key status = Inr k \<and>
     truncate_summary summ = Inr (summary t) \<and> key t = ticket_key_of project i \<and> assignee t = an"
  by (auto simp: entry_def split: sum.splits prod.splits)

lemma shown_tickets_concat: "shown_tickets (concat gs) = concat (map shown_tickets gs)"
  by (induction gs) simp_all

lemma shown_tickets_list_tickets:
  "shown_tickets (printed (list_tickets h srv project m)) =
     concat (map shown_tickets (shown_groups h srv project m))"
  by (simp add: list_tickets_def shown_tickets_concat)

lemma shown_origin:
  assumes "(k, d) \<in> set (shown_tickets (printed (list_tickets h srv project m)))"
  shows "\<exists>i st t. 1 \<le> i \<and> i \<le> m \<and> st \<in> set status_order \<and> st \<noteq> ''Done'' \<and>
           st \<noteq> ''Ready for Deploy'' \<and> entry h srv project i = Some (JStr st, [t]) \<and>
           k = ticket_key_of project i \<and> key t = k \<and> summary t = d"
proof -
  let ?found = "fetch_all h srv project m"
  from assms obtain g where g: "g \<in> set (shown_groups h srv project m)"
    and kd: "(k, d) \<in> set (shown_tickets g)"
    by (auto simp: shown_tickets_list_tickets)
  from g obtain st ts where st: "st \<in> set status_order" "st \<noteq> ''Done''" "st \<noteq> ''Ready for Deploy''"
    and ts: "?found (JStr st) = Some ts" and gd: "g = fst (print_group st ts)"
    unfolding shown_groups_def by (blast dest: display_groups)
  from kd gd have "\<exists>ts'. sorted_tickets ts = Inr ts' \<and>
      (k, d) \<in> set (map (\<lambda>t. (key t, summary t)) ts')"
    by (cases "sorted_tickets ts") (simp_all add: shown_tickets_print_group)
  then obtain ts' where ts': "sorted_tickets ts = Inr ts'"
    and "(k, d) \<in> set (map (\<lambda>t. (key t, summary t)) ts')"
    by blast
  then obtain t where t: "t \<in> set ts" "key t = k" "summary t = d"
    using sorted_tickets_set [OF ts'] by auto
  from ts have "ts = concat (map (stored h srv project (JStr st)) (candidates m))"
    by (simp add: fetch_all_at split: if_splits)
  with t(1) obtain i where i: "i \<in> set (candidates m)" and ti: "t \<in> set (stored h srv project (JStr st) i)"
    by auto
  from ti have "entry h srv project i = Some (JStr st, [t]) \<and> key t = ticket_key_of project i"
    using stored_cases [of h srv project "JStr st" i] by auto
  with i st t show ?thesis
    by (auto simp: candidates_set)
qed

lemma shown_key_status:
  assumes "1 \<le> i" and "i \<le> m"
    and "srv (GET (issue_url h (ticket_key_of project i))) = Inr data"
    and "ticket_key_of project i \<in> set (shown_keys (printed (list_tickets h srv project m)))"
  shows "\<exists>st. status_of data = Inr (JStr st) \<and> st \<in> set status_order \<and> st \<noteq> ''Done'' \<and>
           st \<noteq> ''Ready for Deploy''"
proof -
  from assms(4) obtain d where
    "(ticket_key_of project i, d) \<in> set (shown_tickets (printed (list_tickets h srv project m)))"
    by (auto simp: shown_keys_def)
  from shown_origin [OF this] obtain j st t where
    j: "1 \<le> j" and st: "st \<in> set status_order" "st \<noteq> ''Done''" "st \<noteq> ''Ready for Deploy''"
    and e: "entry h srv project j = Some (JStr st, [t])"
    and k: "ticket_key_of project i = ticket_key_of project j"
    by blast
  from k assms(1) j have "i = j" by (intro ticket_key_of_inj) auto
  with entry_ticket [OF e] assms(3) obtain summ status an where
    "read_fields data = Inr (summ, status, an)" "dict_key status = Inr (JStr st)"
    by auto
  then have "status_of data = Inr (JStr st)"
    using read_fields_parts dict_key_JStr by blast
  with st show ?thesis by blast
qed

subsection \<open>The search for the transition\<close>

lemma find_transition_no_match:
  assumes "\<forall>t\<in>set transitions. \<exists>name. py_subscript t ''name'' = Inr (JStr name) \<and>
             lower name \<noteq> lower new_status"
  shows "find_transition transitions new_status = Inr JNull"
  using assms by (induction transitions) auto

lemma find_transition_match:
  "find_transition transitions new_status = Inr tid \<Longrightarrow> truthy tid \<Longrightarrow>
   \<exists>t\<in>set transitions. \<exists>name. py_subscript t ''name'' = Inr (JStr name) \<and>
     lower name = lower new_status \<and> py_subscript t ''id'' = Inr tid"
proof (induction transitions)
  case Nil
  then show ?case by simp
next
  case (Cons t ts)
  from Cons.prems(1) obtain name l where n: "py_subscript t ''name'' = Inr name" "py_lower name = Inr l"
    by (auto simp: bind_exn_Inr_iff)
  then obtain s where s: "name = JStr s" "l = lower s" by (cases name) auto
  show ?case
  proof (cases "l = lower new_status")
    case True
    with Cons.prems n s show ?thesis by auto
  next
    case False
    with Cons n s show ?thesis by auto
  qed
qed

text \<open>
  Whatever the service answers, a \<^verbatim>\<open>POST\<close> is sent only for a transition whose name
  matches the requested name in lower case, and it carries the id of that transition.
\<close>

lemma update_status_post_needs_match:
  assumes "POST u body \<in> set (requests (update_status h srv ticket_key new_status))"
  shows "\<exists>data transitions t name tid.
           srv (GET (transitions_url h ticket_key)) = Inr data \<and>
           bind_exn (py_get data ''transitions'' (JArr [])) py_iter = Inr transitions \<and>
           t \<in> set transitions \<and> py_subscript t ''name'' = Inr (JStr name) \<and>
           lower name = lower new_status \<and> py_subscript t ''id'' = Inr tid \<and>
           body = transition_data tid \<and> u = transitions_url h ticket_key"
proof -
  from assms obtain tid where
    tid: "bind_exn (srv (GET (transitions_url h ticket_key))) (\<lambda>data. find_transition_id data new_status) = Inr tid"
    and t: "truthy tid" and b: "body = transition_data tid" "u = transitions_url h ticket_key"
    by (auto simp: update_status_def Let_def split: sum.splits if_splits)
  from tid obtain data transitions where
    "srv (GET (transitions_url h ticket_key)) = Inr data"
    "bind_exn (py_get data ''transitions'' (JArr [])) py_iter = Inr transitions"
    "find_transition transitions new_status = Inr tid"
    by (auto simp: bind_exn_Inr_iff find_transition_id_def)
  with find_transition_match [OF this(3) t] b show ?thesis by blast
qed

subsection \<open>Printing blocks\<close>

lemma bind_io_simps [simp]:
  "bind_io (ls, Inl e) f = (ls, Inl e)"
  "bind_io (ls, Inr v) f = (ls @ fst (f v), snd (f v))"
  by (simp_all add: bind_io_def)

lemma bind_io_lift [simp]:
  "bind_io (lift (Inl e)) f = ([], Inl e)"
  "bind_io (lift (Inr v)) f = f v"
  by (simp_all add: lift_def)

lemma bind_io_say [simp]: "bind_io (say l) f = (l # fst (f ()), snd (f ()))"
  by (simp add: say_def)

subsection \<open>The entry of a candidate from its response\<close>

lemma entry_status:
  "entry h srv project i = Some (k, ts) \<Longrightarrow>
   \<exists>data status. srv (GET (issue_url h (ticket_key_of project i))) = Inr data \<and>
     status_of data = Inr status \<and> dict_key status = Inr k"
  by (auto simp: entry_def split: sum.splits prod.splits dest: read_fields_parts)

lemma entry_complete:
  assumes "srv (GET (issue_url h (ticket_key_of project i))) = Inr data"
    and "read_fields data = Inr (JStr s, JStr st, an)"
  shows "entry h srv project i =
           Some (JStr st, [\<lparr>key = ticket_key_of project i,
                            summary = take 60 s @ (if 60 < length s then ''...'' else []),
                            assignee = an\<rparr>])"
  using assms by (simp add: entry_def)

subsection \<open>The example service, evaluated\<close>

lemmas eval_simps =
  str_of_int_def str_of_nat.simps digit_char_def char_of_def bit_Suc_0_iff
  py_int_def strip_def is_space_def is_digit_def digit_val_def Let_def
  lower_def lower_char_def candidates_def upto.simps
  issue_url_def transitions_url_def ticket_key_of_def

lemma demo_keys:
  "ticket_key_of ''DXP'' 3 = ''DXP-3''" "ticket_key_of ''DXP'' 2 = ''DXP-2''"
  "ticket_key_of ''DXP'' 1 = ''DXP-1''"
  "ticket_key_of ''OPS'' 4 = ''OPS-4''" "ticket_key_of ''OPS'' 3 = ''OPS-3''"
  "ticket_key_of ''OPS'' 2 = ''OPS-2''" "ticket_key_of ''OPS'' 1 = ''OPS-1''"
  by (simp_all add: eval_simps)

lemma demo_urls:
  "issue_url demo_helper ''DXP-3'' = ''https://jaxondigital.atlassian.net/rest/api/3/issue/DXP-3''"
  "issue_url demo_helper ''DXP-2'' = ''https://jaxondigital.atlassian.net/rest/api/3/issue/DXP-2''"
  "issue_url demo_helper ''DXP-1'' = ''https://jaxondigital.atlassian.net/rest/api/3/issue/DXP-1''"
  "issue_url demo_helper ''OPS-4'' = ''https://jaxondigital.atlassian.net/rest/api/3/issue/OPS-4''"
  "issue_url demo_helper ''OPS-3'' = ''https://jaxondigital.atlassian.net/rest/api/3/issue/OPS-3''"
  "issue_url demo_helper ''OPS-2'' = ''https://jaxondigital.atlassian.net/rest/api/3/issue/OPS-2''"
  "issue_url demo_helper ''OPS-1'' = ''https://jaxondigital.atlassian.net/rest/api/3/issue/OPS-1''"
  by (simp_all add: issue_url_def demo_helper_def)

lemma demo_responses:
  "demo_server (GET (issue_url demo_helper ''DXP-3'')) = Inl (RequestError ''HTTP Error 404: Not Found'')"
  "demo_server (GET (issue_url demo_helper ''DXP-2'')) =
     Inr (demo_issue demo_long ''In Progress'' (JObj [(''displayName'', JStr ''Brian G'')]))"
  "demo_server (GET (issue_url demo_helper ''DXP-1'')) = Inr (demo_issue ''Set up the project'' ''Done'' JNull)"
  "demo_server (GET (issue_url demo_helper ''OPS-4'')) = Inr (demo_issue ''Archive old logs'' ''Ready for QA'' JNull)"
  "demo_server (GET (issue_url demo_helper ''OPS-3'')) = Inr (demo_issue ''Renew the certificate'' ''Ready for QA'' JNull)"
  "demo_server (GET (issue_url demo_helper ''OPS-2'')) = Inr demo_no_status"
  "demo_server (GET (issue_url demo_helper ''OPS-1'')) = Inr (demo_issue ''Rotate the keys'' ''Blocked'' JNull)"
  by (simp_all add: demo_urls demo_server_def)

lemma demo_fetch:
  "fetch_all demo_helper demo_server ''DXP'' 3 =
     [JStr ''In Progress'' \<mapsto> [\<lparr>key = ''DXP-2'', summary = take 60 demo_long @ ''...'',
                                assignee = JStr ''Brian G''\<rparr>],
      JStr ''Done'' \<mapsto> [\<lparr>key = ''DXP-1'', summary = ''Set up the project'',
                        assignee = JStr ''Unassigned''\<rparr>]]"
  by (simp add: fetch_all_def candidates_def upto.simps fetch_candidate_def demo_keys
      demo_responses store_ticket_def read_fields_def demo_issue_def assignee_name_of_def
      demo_long_def)

lemma demo_fetch_ops:
  "fetch_all demo_helper demo_server ''OPS'' 4 =
     [JStr ''Ready for QA'' \<mapsto>
        [\<lparr>key = ''OPS-4'', summary = ''Archive old logs'', assignee = JStr ''Unassigned''\<rparr>,
         \<lparr>key = ''OPS-3'', summary = ''Renew the certificate'', assignee = JStr ''Unassigned''\<rparr>],
      JStr ''Unknown'' \<mapsto>
        [\<lparr>key = ''OPS-2'', summary = ''Untriaged report'', assignee = JStr ''Unassigned''\<rparr>],
      JStr ''Blocked'' \<mapsto>
        [\<lparr>key = ''OPS-1'', summary = ''Rotate the keys'', assignee = JStr ''Unassigned''\<rparr>]]"
  by (simp add: fetch_all_def candidates_def upto.simps fetch_candidate_def demo_keys
      demo_responses store_ticket_def read_fields_def demo_issue_def assignee_name_of_def
      demo_no_status_def)

lemma demo_sort_keys:
  "sort_key_of \<lparr>key = ''DXP-2'', summary = s, assignee = a\<rparr> = Inr 2"
  "sort_key_of \<lparr>key = ''OPS-4'', summary = s, assignee = a\<rparr> = Inr 4"
  "sort_key_of \<lparr>key = ''OPS-3'', summary = s, assignee = a\<rparr> = Inr 3"
  by (simp_all add: sort_key_of_def py_index_def eval_simps)

lemma demo_listing:
  "printed (list_tickets demo_helper demo_server ''DXP'' 3) =
     [[Lit [CHR 0x0A], Val (JStr ''DXP''), Lit '' Tickets:''],
      [Lit (replicate 80 CHR ''='')],
      [Lit [CHR 0x0A, CHR ''[''], Val (JStr ''In Progress''), Lit ''] ('', Len 1, Lit '' tickets)''],
      [Lit (replicate 70 CHR ''-'')],
      [Lit ''  '', Val (JStr ''DXP-2''), Lit '': '', Val (JStr (take 60 demo_long @ ''...''))],
      [Lit ''    '', Uni 0x2192, Lit '' Assignee: '', Val (JStr ''Brian G'')]]"
  by (simp add: list_tickets_def shown_groups_def demo_fetch status_order_def print_group_def
      sorted_tickets_def demo_sort_keys group_header_def ticket_lines_def ticket_line_def
      assignee_line_def)

lemma demo_groups_ops:
  "shown_groups demo_helper demo_server ''OPS'' 4 =
     [[[Lit [CHR 0x0A, CHR ''[''], Val (JStr ''Ready for QA''), Lit ''] ('', Len 2, Lit '' tickets)''],
       [Lit (replicate 70 CHR ''-'')],
       [Lit ''  '', Val (JStr ''OPS-4''), Lit '': '', Val (JStr ''Archive old logs'')],
       [Lit ''  '', Val (JStr ''OPS-3''), Lit '': '', Val (JStr ''Renew the certificate'')]]]"
  by (simp add: shown_groups_def demo_fetch_ops status_order_def print_group_def
      sorted_tickets_def demo_sort_keys group_header_def ticket_lines_def ticket_line_def
      assignee_line_def)

section \<open>The claims\<close>

text \<open>
  C1. When the requested status name matches, without regard to case, the name of none
  of the transitions the transitions query returned, \<open>update_status\<close> sends the one
  \<^verbatim>\<open>GET\<close> request and no \<^verbatim>\<open>POST\<close>, prints the message that the status is not available,
  and returns \<^verbatim>\<open>False\<close>. The transitions returned are the elements the loop runs over
  (none when the response has no \<^verbatim>\<open>transitions\<close> entry), each with a string as its name.
\<close>

theorem update_status_no_match:
  assumes "srv (GET (transitions_url h ticket_key)) = Inr data"
    and "bind_exn (py_get data ''transitions'' (JArr [])) py_iter = Inr transitions"
    and "\<forall>t\<in>set transitions. \<exists>name. py_subscript t ''name'' = Inr (JStr name) \<and>
           lower name \<noteq> lower new_status"
  shows "update_status h srv ticket_key new_status =
           \<lparr>requests = [GET (transitions_url h ticket_key)],
            printed = [not_available_line new_status],
            result = False\<rparr>"
proof -
  have "find_transition_id data new_status = Inr JNull"
    using assms(2) find_transition_no_match [OF assms(3)]
    by (auto simp: find_transition_id_def bind_exn_Inr_iff)
  then show ?thesis
    by (simp add: update_status_def assms(1))
qed

theorem update_status_no_match_witness:
  "update_status demo_helper demo_server ''DXP-2'' ''blocked'' =
     \<lparr>requests = [GET ''https://jaxondigital.atlassian.net/rest/api/3/issue/DXP-2/transitions''],
      printed = [[Lit (''Status '' @ [CHR 0x27]), Val (JStr ''blocked''),
                  Lit (CHR 0x27 # '' not available'')]],
      result = False\<rparr>"
proof -
  let ?ts = "[JObj [(''id'', JStr ''21''), (''name'', JStr ''Ready for QA'')],
              JObj [(''id'', JStr ''31''), (''name'', JStr ''Done'')]]"
  have u: "transitions_url demo_helper ''DXP-2'' =
      ''https://jaxondigital.atlassian.net/rest/api/3/issue/DXP-2/transitions''"
    by (simp add: transitions_url_def demo_helper_def)
  have a: "demo_server (GET (transitions_url demo_helper ''DXP-2'')) = Inr demo_transitions"
    by (simp add: u demo_server_def)
  have b: "bind_exn (py_get demo_transitions ''transitions'' (JArr [])) py_iter = Inr ?ts"
    by (simp add: demo_transitions_def)
  have c: "\<forall>t\<in>set ?ts. \<exists>name. py_subscript t ''name'' = Inr (JStr name) \<and>
             lower name \<noteq> lower ''blocked''"
    by (simp add: eval_simps)
  show ?thesis
    using update_status_no_match [where srv = demo_server and h = demo_helper
        and ticket_key = "''DXP-2''", OF a b c] by (simp add: u not_available_line_def)
qed

text \<open>
  C2. Every ticket shown in the output of \<open>list_tickets\<close> was fetched with a string \<open>s\<close>
  as its summary, and the summary displayed is the first 60 characters of \<open>s\<close> followed
  by three dots when \<open>s\<close> has more than 60 characters, and \<open>s\<close> itself otherwise.
\<close>

theorem list_summary_truncated:
  assumes "(k, d) \<in> set (shown_tickets (printed (list_tickets h srv project max_results)))"
  shows "\<exists>data s. srv (GET (issue_url h k)) = Inr data \<and> summary_of data = Inr (JStr s) \<and>
           d = (if 60 < length s then take 60 s @ ''...'' else s)"
proof -
  from shown_origin [OF assms] obtain i st t where
    e: "entry h srv project i = Some (JStr st, [t])" and k: "k = ticket_key_of project i"
    and d: "summary t = d"
    by blast
  from entry_ticket [OF e] obtain data summ status an where
    "srv (GET (issue_url h k)) = Inr data" "read_fields data = Inr (summ, status, an)"
    "truncate_summary summ = Inr d"
    using k d by auto
  then show ?thesis
    using read_fields_parts truncate_summary_Inr by blast
qed

theorem list_summary_truncated_witness:
  "(''DXP-2'', take 60 demo_long @ ''...'')
     \<in> set (shown_tickets (printed (list_tickets demo_helper demo_server ''DXP'' 3)))
   \<and> (\<exists>data s. demo_server (GET (issue_url demo_helper ''DXP-2'')) = Inr data \<and>
         summary_of data = Inr (JStr s) \<and>
         take 60 demo_long @ ''...'' = (if 60 < length s then take 60 s @ ''...'' else s))"
proof -
  have h: "(''DXP-2'', take 60 demo_long @ ''...'')
      \<in> set (shown_tickets (printed (list_tickets demo_helper demo_server ''DXP'' 3)))"
    by (simp add: demo_listing)
  from list_summary_truncated [where srv = demo_server and h = demo_helper, OF h] h
  show ?thesis by blast
qed

text \<open>
  C3. A candidate whose response gives the status \<^verbatim>\<open>Done\<close> or \<^verbatim>\<open>Ready for Deploy\<close> is
  shown on no line of the output of \<open>list_tickets\<close>, whatever the other candidates are.
\<close>

theorem list_hides_completed:
  assumes "1 \<le> i" and "i \<le> max_results"
    and "srv (GET (issue_url h (ticket_key_of project i))) = Inr data"
    and "status_of data = Inr (JStr ''Done'') \<or> status_of data = Inr (JStr ''Ready for Deploy'')"
  shows "ticket_key_of project i \<notin> set (shown_keys (printed (list_tickets h srv project max_results)))"
  using shown_key_status [where srv = srv and h = h and project = project and i = i
      and m = max_results and data = data] assms by auto

theorem list_hides_completed_witness:
  "status_of (demo_issue ''Set up the project'' ''Done'' JNull) = Inr (JStr ''Done'')
   \<and> ''DXP-1'' \<notin> set (shown_keys (printed (list_tickets demo_helper demo_server ''DXP'' 3)))"
proof -
  have d: "demo_server (GET (issue_url demo_helper (ticket_key_of ''DXP'' 1))) =
      Inr (demo_issue ''Set up the project'' ''Done'' JNull)"
    by (simp add: demo_keys demo_responses)
  have s: "status_of (demo_issue ''Set up the project'' ''Done'' JNull) = Inr (JStr ''Done'')"
    by (simp add: status_of_def demo_issue_def)
  have "ticket_key_of ''DXP'' 1 \<notin> set (shown_keys (printed (list_tickets demo_helper demo_server ''DXP'' 3)))"
    by (rule list_hides_completed [where srv = demo_server and h = demo_helper, OF _ _ d])
      (simp_all add: s)
  with s show ?thesis by (simp add: demo_keys)
qed

text \<open>
  C4. A candidate whose response gives a status that is none of the seven names of
  \<open>status_order\<close> (another string, or a value that is not a string) is shown on no
  line of the output of \<open>list_tickets\<close>.
\<close>

theorem list_drops_other_statuses:
  assumes "1 \<le> i" and "i \<le> max_results"
    and "srv (GET (issue_url h (ticket_key_of project i))) = Inr data"
    and "status_of data = Inr status" and "status \<notin> JStr ` set status_order"
  shows "ticket_key_of project i \<notin> set (shown_keys (printed (list_tickets h srv project max_results)))"
  using shown_key_status [where srv = srv and h = h and project = project and i = i
      and m = max_results and data = data] assms by auto

theorem list_drops_other_statuses_witness:
  "status_of (demo_issue ''Rotate the keys'' ''Blocked'' JNull) = Inr (JStr ''Blocked'')
   \<and> JStr ''Blocked'' \<notin> JStr ` set status_order
   \<and> ''OPS-1'' \<notin> set (shown_keys (printed (list_tickets demo_helper demo_server ''OPS'' 4)))"
proof -
  have d: "demo_server (GET (issue_url demo_helper (ticket_key_of ''OPS'' 1))) =
      Inr (demo_issue ''Rotate the keys'' ''Blocked'' JNull)"
    by (simp add: demo_keys demo_responses)
  have s: "status_of (demo_issue ''Rotate the keys'' ''Blocked'' JNull) = Inr (JStr ''Blocked'')"
    by (simp add: status_of_def demo_issue_def)
  have n: "JStr ''Blocked'' \<notin> JStr ` set status_order"
    by (simp add: status_order_def)
  have "ticket_key_of ''OPS'' 1 \<notin> set (shown_keys (printed (list_tickets demo_helper demo_server ''OPS'' 4)))"
    by (rule list_drops_other_statuses [where srv = demo_server and h = demo_helper, OF _ _ d s n])
      simp_all
  with s n show ?thesis by (simp add: demo_keys)
qed

text \<open>
  C5. In every group of lines that \<open>list_tickets\<close> prints for a status, the tickets
  shown come in strictly descending order of the numeric suffix of their keys.
\<close>

theorem list_group_descending:
  "\<forall>g\<in>set (shown_groups h srv project max_results).
     sorted_wrt (\<lambda>a b. \<exists>x y. numeric_suffix a = Some x \<and> numeric_suffix b = Some y \<and> y < x)
       (shown_keys g)"
proof
  fix g
  assume "g \<in> set (shown_groups h srv project max_results)"
  then obtain st ts where ts: "fetch_all h srv project max_results (JStr st) = Some ts"
    and g: "g = fst (print_group st ts)"
    unfolding shown_groups_def by (blast dest: display_groups)
  let ?cs = "candidates max_results"
  let ?P = "\<lambda>a b. \<exists>x y. numeric_suffix a = Some x \<and> numeric_suffix b = Some y \<and> y < x"
  from ts have ts_eq: "ts = concat (map (stored h srv project (JStr st)) ?cs)"
    by (simp add: fetch_all_at split: if_splits)
  have pos: "\<forall>i\<in>set ?cs. 0 \<le> i" by (auto simp: candidates_set)
  show "sorted_wrt ?P (shown_keys g)"
  proof (cases "sorted_tickets ts")
    case (Inl e)
    then show ?thesis by (simp add: shown_keys_def g shown_tickets_print_group)
  next
    case (Inr ts')
    then have "ts' = ts"
      using sorted_tickets_stored [OF pos candidates_descending] ts_eq by simp
    with Inr have "shown_keys g = map key ts"
      by (simp add: shown_keys_def g shown_tickets_print_group comp_def)
    also have "\<dots> = map (ticket_key_of project)
        (filter (\<lambda>i. stored h srv project (JStr st) i \<noteq> []) ?cs)"
      by (simp add: ts_eq keys_of_stored)
    finally have keys: "shown_keys g = map (ticket_key_of project)
        (filter (\<lambda>i. stored h srv project (JStr st) i \<noteq> []) ?cs)" .
    have "sorted_wrt (\<lambda>a b. b < a) (filter (\<lambda>i. stored h srv project (JStr st) i \<noteq> []) ?cs)"
      using candidates_descending by (rule sorted_wrt_filter)
    then have "sorted_wrt (\<lambda>i j. ?P (ticket_key_of project i) (ticket_key_of project j))
        (filter (\<lambda>i. stored h srv project (JStr st) i \<noteq> []) ?cs)"
      by (rule sorted_wrt_mono_rel [rotated]) (auto simp: candidates_set numeric_suffix_ticket_key)
    then show ?thesis by (simp add: keys sorted_wrt_map)
  qed
qed

theorem list_group_descending_witness:
  "shown_groups demo_helper demo_server ''OPS'' 4 \<noteq> []
   \<and> shown_keys (hd (shown_groups demo_helper demo_server ''OPS'' 4)) = [''OPS-4'', ''OPS-3'']
   \<and> sorted_wrt (\<lambda>a b. \<exists>x y. numeric_suffix a = Some x \<and> numeric_suffix b = Some y \<and> y < x)
        [''OPS-4'', ''OPS-3'']"
proof -
  have k: "shown_keys (hd (shown_groups demo_helper demo_server ''OPS'' 4)) = [''OPS-4'', ''OPS-3'']"
    by (simp add: demo_groups_ops shown_keys_def)
  have m: "hd (shown_groups demo_helper demo_server ''OPS'' 4)
      \<in> set (shown_groups demo_helper demo_server ''OPS'' 4)"
    by (simp add: demo_groups_ops)
  from list_group_descending [of demo_helper demo_server "''OPS''" 4] m
  have "sorted_wrt (\<lambda>a b. \<exists>x y. numeric_suffix a = Some x \<and> numeric_suffix b = Some y \<and> y < x)
      (shown_keys (hd (shown_groups demo_helper demo_server ''OPS'' 4)))"
    by blast
  with k show ?thesis by (simp add: demo_groups_ops)
qed

text \<open>
  C6. For a response whose fields and status can be read, the third line \<open>get_ticket\<close>
  prints names the assignee: \<^verbatim>\<open>Unassigned\<close> when the assignee entry is absent or
  \<^verbatim>\<open>null\<close>, and the display name when the assignee is an object that has one.
\<close>

theorem get_ticket_assignee:
  assumes "srv (GET (issue_url h ticket_key)) = Inr data"
    and "py_get data ''fields'' (JObj []) = Inr (JObj flds)"
    and "bind_exn (py_get (JObj flds) ''status'' (JObj [])) (\<lambda>st. py_get st ''name'' (JStr ''Unknown''))
           = Inr status"
  shows "(map_of flds ''assignee'' = None \<or> map_of flds ''assignee'' = Some JNull \<longrightarrow>
            printed (get_ticket h srv ticket_key) ! 2 = [Lit ''Assignee: '', Val (JStr ''Unassigned'')])
       \<and> (\<forall>a name. map_of flds ''assignee'' = Some (JObj a) \<and> map_of a ''displayName'' = Some name \<longrightarrow>
            printed (get_ticket h srv ticket_key) ! 2 = [Lit ''Assignee: '', Val name])"
proof -
  have *: "printed (get_ticket h srv ticket_key) ! 2 = [Lit ''Assignee: '', Val an]"
    if "bind_exn (py_get (JObj flds) ''assignee'' (JObj [])) assignee_name_of = Inr an" for an
  proof -
    from that obtain a where a: "py_get (JObj flds) ''assignee'' (JObj []) = Inr a"
      "assignee_name_of a = Inr an"
      by (auto simp: bind_exn_Inr_iff)
    have "\<exists>rest r. print_ticket ticket_key data =
        ([Lit [CHR 0x0A], Val (JStr ticket_key), Lit '': '', Val (case map_of flds ''summary'' of None \<Rightarrow> JStr ''No summary'' | Some v \<Rightarrow> v)]
          # [Lit ''Status: '', Val status] # [Lit ''Assignee: '', Val an] # rest, r)"
      using assms(2,3) a
      by (simp add: print_ticket_def del: py_get.simps) (simp add: prod_eq_iff)
    then show ?thesis
      by (auto simp: get_ticket_def assms(1) Let_def split: sum.splits)
  qed
  show ?thesis
    by (auto intro!: * simp: assignee_name_of_def)
qed

theorem get_ticket_assignee_witness:
  "printed (get_ticket demo_helper demo_server ''DXP-1'') ! 2 = [Lit ''Assignee: '', Val (JStr ''Unassigned'')]
   \<and> printed (get_ticket demo_helper demo_server ''DXP-2'') ! 2 = [Lit ''Assignee: '', Val (JStr ''Brian G'')]"
proof -
  let ?f1 = "[(''summary'', JStr ''Set up the project''),
              (''status'', JObj [(''name'', JStr ''Done'')]), (''assignee'', JNull)]"
  let ?f2 = "[(''summary'', JStr demo_long),
              (''status'', JObj [(''name'', JStr ''In Progress'')]),
              (''assignee'', JObj [(''displayName'', JStr ''Brian G'')])]"
  have d1: "demo_server (GET (issue_url demo_helper ''DXP-1'')) =
      Inr (demo_issue ''Set up the project'' ''Done'' JNull)"
    by (simp add: demo_urls demo_server_def)
  have f1: "py_get (demo_issue ''Set up the project'' ''Done'' JNull) ''fields'' (JObj []) = Inr (JObj ?f1)"
    by (simp add: demo_issue_def)
  have s1: "bind_exn (py_get (JObj ?f1) ''status'' (JObj [])) (\<lambda>st. py_get st ''name'' (JStr ''Unknown''))
      = Inr (JStr ''Done'')"
    by simp
  have d2: "demo_server (GET (issue_url demo_helper ''DXP-2'')) =
      Inr (demo_issue demo_long ''In Progress'' (JObj [(''displayName'', JStr ''Brian G'')]))"
    by (simp add: demo_urls demo_server_def)
  have f2: "py_get (demo_issue demo_long ''In Progress'' (JObj [(''displayName'', JStr ''Brian G'')]))
      ''fields'' (JObj []) = Inr (JObj ?f2)"
    by (simp add: demo_issue_def)
  have s2: "bind_exn (py_get (JObj ?f2) ''status'' (JObj [])) (\<lambda>st. py_get st ''name'' (JStr ''Unknown''))
      = Inr (JStr ''In Progress'')"
    by simp
  show ?thesis
    using get_ticket_assignee [where srv = demo_server and h = demo_helper
        and ticket_key = "''DXP-1''", OF d1 f1 s1]
      get_ticket_assignee [where srv = demo_server and h = demo_helper
        and ticket_key = "''DXP-2''", OF d2 f2 s2]
    by simp
qed



text \<open>
  C8. Listing project DXP with \<^verbatim>\<open>max_results=3\<close>, where the request for DXP-3 raises,
  DXP-2 is in progress and DXP-1 is done: the three requests are sent, and after the two
  head lines the output is the one section headed \<^verbatim>\<open>[In Progress] (1 tickets)\<close> with
  the lines of DXP-2; the call returns.
\<close>

theorem list_scenario:
  assumes "srv (GET (issue_url h ''DXP-3'')) = Inl e"
    and "srv (GET (issue_url h ''DXP-2'')) = Inr data2"
    and "read_fields data2 = Inr (JStr s2, JStr ''In Progress'', an2)"
    and "srv (GET (issue_url h ''DXP-1'')) = Inr data1"
    and "status_of data1 = Inr (JStr ''Done'')"
  shows "list_tickets h srv ''DXP'' 3 =
           \<lparr>requests = [GET (issue_url h ''DXP-3''), GET (issue_url h ''DXP-2''),
                        GET (issue_url h ''DXP-1'')],
            printed = [[Lit [CHR 0x0A], Val (JStr ''DXP''), Lit '' Tickets:''],
                       [Lit (replicate 80 CHR ''='')],
                       [Lit [CHR 0x0A, CHR ''[''], Val (JStr ''In Progress''), Lit ''] ('', Len 1,
                        Lit '' tickets)''],
                       [Lit (replicate 70 CHR ''-'')]]
                      @ ticket_lines \<lparr>key = ''DXP-2'',
                           summary = take 60 s2 @ (if 60 < length s2 then ''...'' else []),
                           assignee = an2\<rparr>,
            result = Inr ()\<rparr>"
proof -
  let ?t = "\<lparr>key = ''DXP-2'', summary = take 60 s2 @ (if 60 < length s2 then ''...'' else []),
             assignee = an2\<rparr>"
  let ?found = "fetch_all h srv ''DXP'' 3"
  have c: "candidates 3 = [3, 2, 1]"
    by (simp add: candidates_def upto.simps)
  have e3: "entry h srv ''DXP'' 3 = None"
    by (simp add: entry_def demo_keys assms(1))
  have e2: "entry h srv ''DXP'' 2 = Some (JStr ''In Progress'', [?t])"
    using entry_complete [where srv = srv and h = h and project = "''DXP''" and i = 2
        and data = data2, OF _ assms(3)] assms(2)
    by (simp add: demo_keys)
  have e1: "entry h srv ''DXP'' 1 = None \<or> (\<exists>ts. entry h srv ''DXP'' 1 = Some (JStr ''Done'', ts))"
  proof (cases "entry h srv ''DXP'' 1")
    case None
    then show ?thesis by simp
  next
    case (Some kts)
    obtain k ts where kts: "kts = (k, ts)" by (cases kts)
    from entry_status [where srv = srv and h = h, OF Some [unfolded kts]] assms(4,5)
    have "k = JStr ''Done''" by (auto simp: demo_keys)
    with Some kts show ?thesis by simp
  qed
  have other: "?found (JStr st) = None" if "st \<noteq> ''In Progress''" "st \<noteq> ''Done''" for st
    using e1 e2 e3 that by (auto simp: fetch_all_at c)
  have prog: "?found (JStr ''In Progress'') = Some [?t]"
    using e1 e2 e3 by (auto simp: fetch_all_at c stored_def)
  have g: "print_group ''In Progress'' [?t] =
      ([group_header ''In Progress'' 1, [Lit (replicate 70 CHR ''-'')]] @ ticket_lines ?t, Inr ())"
    by (simp add: print_group_def sorted_tickets_def demo_sort_keys)
  have d: "display ?found status_order =
      ([[group_header ''In Progress'' 1, [Lit (replicate 70 CHR ''-'')]] @ ticket_lines ?t], Inr ())"
    by (simp add: status_order_def other prog g split: option.splits)
  show ?thesis
    by (simp add: list_tickets_def shown_groups_def d c demo_keys group_header_def)
qed

theorem list_scenario_witness:
  "list_tickets demo_helper demo_server ''DXP'' 3 =
     \<lparr>requests = [GET ''https://jaxondigital.atlassian.net/rest/api/3/issue/DXP-3'',
                  GET ''https://jaxondigital.atlassian.net/rest/api/3/issue/DXP-2'',
                  GET ''https://jaxondigital.atlassian.net/rest/api/3/issue/DXP-1''],
      printed =
        [[Lit [CHR 0x0A], Val (JStr ''DXP''), Lit '' Tickets:''],
         [Lit (replicate 80 CHR ''='')],
         [Lit [CHR 0x0A, CHR ''[''], Val (JStr ''In Progress''), Lit ''] ('', Len 1, Lit '' tickets)''],
         [Lit (replicate 70 CHR ''-'')],
         [Lit ''  '', Val (JStr ''DXP-2''), Lit '': '',
          Val (JStr ''Download endpoint returns the wrong content type for large a...'')],
         [Lit ''    '', Uni 0x2192, Lit '' Assignee: '', Val (JStr ''Brian G'')]],
      result = Inr ()\<rparr>"
proof -
  have r: "read_fields (demo_issue demo_long ''In Progress'' (JObj [(''displayName'', JStr ''Brian G'')]))
      = Inr (JStr demo_long, JStr ''In Progress'', JStr ''Brian G'')"
    by (simp add: read_fields_def demo_issue_def assignee_name_of_def)
  have s: "status_of (demo_issue ''Set up the project'' ''Done'' JNull) = Inr (JStr ''Done'')"
    by (simp add: status_of_def demo_issue_def)
  from list_scenario [where srv = demo_server and h = demo_helper,
      OF demo_responses(1) demo_responses(2) r demo_responses(3) s]
  show ?thesis
    by (simp add: demo_urls ticket_lines_def ticket_line_def assignee_line_def demo_long_def)
qed

text \<open>
  C9. Once the helper has been constructed, a command line whose first argument is none
  of \<^verbatim>\<open>list\<close>, \<^verbatim>\<open>get\<close> and \<^verbatim>\<open>status\<close> sends no request, prints nothing, and the
  process runs to its end with exit status 0.
\<close>

theorem main_unrecognized:
  assumes "init pass_file = Inr h" and "2 \<le> length argv"
    and "argv ! 1 \<noteq> ''list''" and "argv ! 1 \<noteq> ''get''" and "argv ! 1 \<noteq> ''status''"
  shows "main pass_file srv argv = \<lparr>requests = [], printed = [], result = Finished\<rparr>"
  using assms by (simp add: main_def)

theorem main_unrecognized_witness:
  "main (Inr ''secret'') demo_server [''jira_helper.py'', ''delete'', ''DXP-2''] =
     \<lparr>requests = [], printed = [], result = Finished\<rparr>"
proof -
  have i: "init (Inr ''secret'') = Inr demo_helper"
    by (simp add: init_def demo_helper_def eval_simps)
  show ?thesis
    by (rule main_unrecognized [OF i]) simp_all
qed

text \<open>
  C10. A candidate whose response has no status entry, or a status object without a
  name, is grouped under \<^verbatim>\<open>Unknown\<close>. When its summary is a string (or absent) and its
  assignee can be read, its ticket is stored in the list kept for \<^verbatim>\<open>Unknown\<close>, and it
  is shown on no line of the output.
\<close>

theorem list_unknown_status:
  assumes "1 \<le> i" and "i \<le> max_results"
    and "srv (GET (issue_url h (ticket_key_of project i))) = Inr data"
    and "py_get data ''fields'' (JObj []) = Inr flds"
    and "py_get flds ''status'' (JObj []) = Inr (JObj st)" and "map_of st ''name'' = None"
    and "py_get flds ''summary'' (JStr ''No summary'') = Inr (JStr s)"
    and "bind_exn (py_get flds ''assignee'' (JObj [])) assignee_name_of = Inr an"
  shows "status_of data = Inr (JStr ''Unknown'')
       \<and> (\<exists>ts. fetch_all h srv project max_results (JStr ''Unknown'') = Some ts \<and>
             \<lparr>key = ticket_key_of project i,
              summary = take 60 s @ (if 60 < length s then ''...'' else []),
              assignee = an\<rparr> \<in> set ts)
       \<and> ticket_key_of project i
             \<notin> set (shown_keys (printed (list_tickets h srv project max_results)))"
proof -
  let ?t = "\<lparr>key = ticket_key_of project i,
             summary = take 60 s @ (if 60 < length s then ''...'' else []), assignee = an\<rparr>"
  have st: "status_of data = Inr (JStr ''Unknown'')"
    using assms(4,5,6) by (simp add: status_of_def)
  have rf: "read_fields data = Inr (JStr s, JStr ''Unknown'', an)"
    using assms(4,5,6,7,8) by (auto simp: read_fields_def bind_exn_Inr_iff)
  have e: "entry h srv project i = Some (JStr ''Unknown'', [?t])"
    using assms(3) rf by (rule entry_complete)
  have c: "i \<in> set (candidates max_results)"
    using assms(1,2) by (simp add: candidates_set)
  have "?t \<in> set (stored h srv project (JStr ''Unknown'') i)"
    by (simp add: stored_def e)
  with c e have "\<exists>ts. fetch_all h srv project max_results (JStr ''Unknown'') = Some ts \<and> ?t \<in> set ts"
    by (auto simp: fetch_all_at)
  moreover have "ticket_key_of project i
      \<notin> set (shown_keys (printed (list_tickets h srv project max_results)))"
    using shown_key_status [where srv = srv and h = h and project = project and i = i
        and m = max_results and data = data] assms(1,2,3) st
    by (auto simp: status_order_def)
  ultimately show ?thesis using st by blast
qed

theorem list_unknown_status_witness:
  "(\<exists>ts. fetch_all demo_helper demo_server ''OPS'' 4 (JStr ''Unknown'') = Some ts \<and>
      \<lparr>key = ''OPS-2'', summary = ''Untriaged report'', assignee = JStr ''Unassigned''\<rparr> \<in> set ts)
   \<and> ''OPS-2'' \<notin> set (shown_keys (printed (list_tickets demo_helper demo_server ''OPS'' 4)))"
proof -
  have d: "demo_server (GET (issue_url demo_helper (ticket_key_of ''OPS'' 2))) = Inr demo_no_status"
    by (simp add: demo_keys demo_responses)
  have f: "py_get demo_no_status ''fields'' (JObj []) = Inr (JObj [(''summary'', JStr ''Untriaged report'')])"
    by (simp add: demo_no_status_def)
  have s: "py_get (JObj [(''summary'', JStr ''Untriaged report'')]) ''status'' (JObj []) = Inr (JObj [])"
    by simp
  have n: "map_of ([] :: (string \<times> json) list) ''name'' = None"
    by simp
  have m: "py_get (JObj [(''summary'', JStr ''Untriaged report'')]) ''summary'' (JStr ''No summary'')
      = Inr (JStr ''Untriaged report'')"
    by simp
  have a: "bind_exn (py_get (JObj [(''summary'', JStr ''Untriaged report'')]) ''assignee'' (JObj []))
      assignee_name_of = Inr (JStr ''Unassigned'')"
    by (simp add: assignee_name_of_def)
  have "(1::int) \<le> 2" and "(2::int) \<le> 4" by simp_all
  from list_unknown_status [where srv = demo_server and h = demo_helper, OF this d f s n m a]
  show ?thesis by (simp add: demo_keys)
qed

end
